theory Spec2Isabelle
  imports Main
begin

section \<open>JavaScript values the billing code relies on\<close>

text \<open>
  The billing backend is TypeScript running on a JavaScript engine. Three facts of
  the language matter for the functions embedded below.

  \<^item> A string is falsy exactly when it is empty; \<open>undefined\<close> and \<open>null\<close> are
    falsy. An optional string is modelled as \<open>string option\<close>, and \<open>truthy\<close> is the
    test the source's \<open>if (x)\<close> and \<open>x || y\<close> perform on it.
  \<^item> Reading a property of an object literal \<open>{...}\<close> first looks at the object's own
    properties and then at \<open>Object.prototype\<close>. The names below are the properties
    every object literal inherits; each of them is a function or an object, hence
    truthy.
  \<^item> Time is read from the clock (\<open>new Date()\<close>, \<open>Date.now()\<close>). Every function that
    reads the clock takes the reading as a parameter \<open>now\<close>: the ISO-8601 string
    \<open>new Date().toISOString()\<close> where the source stores it in a document, the
    milliseconds since the epoch where the source computes with it. The circuit
    breaker stores instants as ISO-8601 strings of fixed width and compares them as
    strings, which orders them as the instants themselves; there an instant is its
    number of milliseconds.
\<close>

definition truthy :: "string option \<Rightarrow> bool" where
  "truthy x = (case x of None \<Rightarrow> False | Some s \<Rightarrow> s \<noteq> [])"

definition objectPrototypeKeys :: "string list" where
  "objectPrototypeKeys =
     [''constructor'', ''__defineGetter__'', ''__defineSetter__'', ''hasOwnProperty'',
      ''__lookupGetter__'', ''__lookupSetter__'', ''isPrototypeOf'',
      ''propertyIsEnumerable'', ''toString'', ''valueOf'', ''__proto__'',
      ''toLocaleString'']"

text \<open>
  The outcome of \<open>obj[key]\<close> on an object literal whose own properties are the
  association list \<open>own\<close>: the own value, a member inherited from
  \<open>Object.prototype\<close>, or \<open>undefined\<close>.
\<close>

datatype 'v js_property = Own 'v | Inherited string | Undefined

definition jsGet :: "(string \<times> 'v) list \<Rightarrow> string \<Rightarrow> 'v js_property" where
  "jsGet own key =
     (case map_of own key of
        Some v \<Rightarrow> Own v
      | None \<Rightarrow> if key \<in> set objectPrototypeKeys then Inherited key else Undefined)"

section \<open>Circuit breaker (sync.ts)\<close>

record CircuitBreakerState =
  isOpen :: bool
  failures :: nat
  lastFailure :: "nat option"
  nextRetry :: "nat option"

text \<open>The module-level constant \<open>circuitBreaker\<close>: the state at process start.\<close>

definition circuitBreaker :: CircuitBreakerState where
  "circuitBreaker = \<lparr>isOpen = False, failures = 0, lastFailure = None, nextRetry = None\<rparr>"

text \<open>Five minutes, the cooldown \<open>setMinutes(getMinutes() + 5)\<close> adds, in milliseconds.\<close>

definition cooldownMs :: nat where
  "cooldownMs = 300000"

text \<open>
  \<open>checkCircuitBreaker()\<close> mutates the global state and returns a boolean; the model
  returns both.
\<close>

definition checkCircuitBreaker :: "nat \<Rightarrow> CircuitBreakerState \<Rightarrow> bool \<times> CircuitBreakerState" where
  "checkCircuitBreaker now cb =
     (case nextRetry cb of
        None \<Rightarrow> (True, cb)
      | Some retryAt \<Rightarrow>
          if isOpen cb then
            (if now < retryAt then (False, cb)
             else (True, cb\<lparr>isOpen := False, failures := 0\<rparr>))
          else (True, cb))"

definition recordSuccess :: "CircuitBreakerState \<Rightarrow> CircuitBreakerState" where
  "recordSuccess cb = cb\<lparr>failures := 0, isOpen := False\<rparr>"

definition recordFailure :: "nat \<Rightarrow> CircuitBreakerState \<Rightarrow> CircuitBreakerState" where
  "recordFailure now cb =
     (let cb1 = cb\<lparr>failures := failures cb + 1, lastFailure := Some now\<rparr>
      in if failures cb1 \<ge> 3
         then cb1\<lparr>isOpen := True, nextRetry := Some (now + cooldownMs)\<rparr>
         else cb1)"

section \<open>Subscription status mapping (webhooks.ts, subscriptions.ts, sync.ts)\<close>

datatype SubscriptionStatus =
  INCOMPLETE | INCOMPLETE_EXPIRED | TRIALING | ACTIVE | PAST_DUE | CANCELED | UNPAID | REVOKED

text \<open>The object literal \<open>statusMap\<close>, written three times in the source with the same entries.\<close>

definition statusMap :: "(string \<times> SubscriptionStatus) list" where
  "statusMap =
     [(''incomplete'', INCOMPLETE),
      (''incomplete_expired'', INCOMPLETE_EXPIRED),
      (''trialing'', TRIALING),
      (''active'', ACTIVE),
      (''past_due'', PAST_DUE),
      (''canceled'', CANCELED),
      (''unpaid'', UNPAID)]"

text \<open>
  \<open>mapPolarStatus(s) = statusMap[s] || "revoked"\<close>. The seven own values are non-empty
  strings and an inherited member is a function or an object, so only \<open>undefined\<close>
  falls through to the default.
\<close>

definition mapPolarStatus :: "string \<Rightarrow> SubscriptionStatus js_property" where
  "mapPolarStatus polarStatus =
     (case jsGet statusMap polarStatus of
        Undefined \<Rightarrow> Own REVOKED
      | found \<Rightarrow> found)"

section \<open>Documents and metadata\<close>

text \<open>
  A document's \<open>metadata\<close> is a JSON object: a finite map from property names to JSON
  values. The object spread \<open>{ ...a, ...b }\<close> copies the properties of \<open>a\<close> and then
  those of \<open>b\<close>, so a property of \<open>b\<close> wins; spreading \<open>undefined\<close> copies nothing.

  Convex checks a function's arguments against its \<open>args\<close> validator before the handler
  runs. The argument records below are the validated shapes (an optional field is an
  \<open>option\<close>), and the embedded functions are the handlers. A table is the list of its
  documents in creation order; \<open>.first()\<close> on an index lookup is the first match, and
  \<open>ctx.db.patch(id, fields)\<close> rewrites the document with that \<open>_id\<close>. A handler that
  throws aborts its transaction: the result is \<open>Inl\<close> of the message and the tables are
  those before the call.
\<close>

datatype json =
  JNull | JBool bool | JNum int | JStr string | JArr "json list" | JObj "(string \<times> json) list"

type_synonym metadata = "string \<rightharpoonup> json"

definition spread :: "metadata option \<Rightarrow> metadata option \<Rightarrow> metadata" where
  "spread a b =
     (case a of None \<Rightarrow> Map.empty | Some x \<Rightarrow> x) ++ (case b of None \<Rightarrow> Map.empty | Some y \<Rightarrow> y)"

text \<open>\<open>if (x) target = x\<close> on an optional string: an absent or empty \<open>x\<close> leaves the target.\<close>

definition setIfTruthy :: "string option \<Rightarrow> string option \<Rightarrow> string option" where
  "setIfTruthy x target = (if truthy x then x else target)"

text \<open>A fresh \<open>_id\<close> for an inserted document: one the table does not hold yet.\<close>

definition freshId :: "nat list \<Rightarrow> nat" where
  "freshId ids = Suc (fold max ids 0)"

record Subscription =
  sub_id :: nat
  sub_customerId :: nat
  sub_userId :: "nat option"
  sub_orgId :: "nat option"
  sub_polarSubscriptionId :: string
  sub_polarProductId :: string
  sub_status :: SubscriptionStatus
  sub_currentPeriodStart :: "string option"
  sub_currentPeriodEnd :: "string option"
  sub_cancelAtPeriodEnd :: "bool option"
  sub_canceledAt :: "string option"
  sub_endedAt :: "string option"
  sub_trialStart :: "string option"
  sub_trialEnd :: "string option"
  sub_metadata :: "metadata option"
  sub_createdAt :: string
  sub_updatedAt :: string
  sub_lastSyncedAt :: "string option"

record Customer =
  cus_id :: nat
  cus_userId :: "nat option"
  cus_orgId :: "nat option"
  cus_email :: string
  cus_polarCustomerId :: string
  cus_createdAt :: string
  cus_metadata :: "metadata option"
  cus_lastSyncedAt :: "string option"


record Invoice =
  inv_id :: nat
  inv_userId :: "nat option"
  inv_customerId :: nat
  inv_subscriptionId :: "nat option"
  inv_polarInvoiceId :: string
  inv_invoiceNumber :: "string option"
  inv_amountDueCents :: int
  inv_currency :: string
  inv_status :: string
  inv_dueDate :: "string option"
  inv_periodStart :: "string option"
  inv_periodEnd :: "string option"
  inv_metadata :: "metadata option"
  inv_createdAt :: string
  inv_paidAt :: "string option"

record CheckoutSession =
  chk_id :: nat
  chk_polarCheckoutId :: string
  chk_status :: string
  chk_expiresAt :: string
  chk_completedAt :: "string option"
  chk_metadata :: "metadata option"
  chk_createdAt :: string

section \<open>Subscription mutator (subscriptions.ts)\<close>

record SubscriptionUpdates =
  upd_status :: "string option"
  upd_currentPeriodStart :: "string option"
  upd_currentPeriodEnd :: "string option"
  upd_cancelAtPeriodEnd :: "bool option"
  upd_canceledAt :: "string option"
  upd_endedAt :: "string option"
  upd_metadata :: "metadata option"

definition getSubscriptionByPolarId :: "Subscription list \<Rightarrow> string \<Rightarrow> Subscription option" where
  "getSubscriptionByPolarId subs polarSubscriptionId =
     find (\<lambda>s. sub_polarSubscriptionId s = polarSubscriptionId) subs"

text \<open>
  The \<open>updates\<close> object \<open>updateSubscriptionFromWebhook\<close> builds and patches in, as the
  change it makes to the document \<open>doc\<close>. \<open>subscription\<close> is the document the lookup
  found, whose metadata the spread reads; \<open>status\<close> is the mapped status, if any.
\<close>

definition subscriptionUpdates ::
  "SubscriptionUpdates \<Rightarrow> SubscriptionStatus option \<Rightarrow> string \<Rightarrow> Subscription
     \<Rightarrow> Subscription \<Rightarrow> Subscription" where
  "subscriptionUpdates updates status now subscription doc =
     doc\<lparr>sub_updatedAt := now,
         sub_lastSyncedAt := Some now,
         sub_status := (case status of Some s \<Rightarrow> s | None \<Rightarrow> sub_status doc),
         sub_currentPeriodStart :=
           setIfTruthy (upd_currentPeriodStart updates) (sub_currentPeriodStart doc),
         sub_currentPeriodEnd :=
           setIfTruthy (upd_currentPeriodEnd updates) (sub_currentPeriodEnd doc),
         sub_cancelAtPeriodEnd :=
           (case upd_cancelAtPeriodEnd updates of
              Some b \<Rightarrow> Some b | None \<Rightarrow> sub_cancelAtPeriodEnd doc),
         sub_canceledAt := setIfTruthy (upd_canceledAt updates) (sub_canceledAt doc),
         sub_endedAt := setIfTruthy (upd_endedAt updates) (sub_endedAt doc),
         sub_metadata :=
           (case upd_metadata updates of
              Some m \<Rightarrow> Some (spread (sub_metadata subscription) (Some m))
            | None \<Rightarrow> sub_metadata doc)\<rparr>"

definition patchSubscription ::
  "nat \<Rightarrow> (Subscription \<Rightarrow> Subscription) \<Rightarrow> Subscription list \<Rightarrow> Subscription list" where
  "patchSubscription docId change subs =
     map (\<lambda>doc. if sub_id doc = docId then change doc else doc) subs"

text \<open>
  \<open>updateSubscriptionFromWebhook\<close>: returns \<open>null\<close> when no document has the external
  id, the document's \<open>_id\<close> otherwise. The status lookup is the one of
  \<open>mapPolarStatus\<close>, guarded by \<open>if (args.updates.status)\<close>; a status that finds an
  inherited member puts a function into the patch, which \<open>ctx.db.patch\<close> rejects.
\<close>

definition updateSubscriptionFromWebhook ::
  "string \<Rightarrow> SubscriptionUpdates \<Rightarrow> string \<Rightarrow> Subscription list
     \<Rightarrow> string + (Subscription list \<times> nat option)" where
  "updateSubscriptionFromWebhook polarSubscriptionId updates now subs =
     (case getSubscriptionByPolarId subs polarSubscriptionId of
        None \<Rightarrow> Inr (subs, None)
      | Some subscription \<Rightarrow>
          (case (case upd_status updates of
                   None \<Rightarrow> Undefined
                 | Some s \<Rightarrow> if s = [] then Undefined else mapPolarStatus s) of
             Inherited member \<Rightarrow> Inl (member @ '' is not a supported Convex type'')
           | Undefined \<Rightarrow>
               Inr (patchSubscription (sub_id subscription)
                      (subscriptionUpdates updates None now subscription) subs,
                    Some (sub_id subscription))
           | Own status \<Rightarrow>
               Inr (patchSubscription (sub_id subscription)
                      (subscriptionUpdates updates (Some status) now subscription) subs,
                    Some (sub_id subscription))))"

text \<open>
  The \<open>data\<close> object of a subscription notification, and the handler of
  \<open>subscription.updated\<close> (webhooks.ts). The handler returns the table and the message of
  the error it let escape, if any.
\<close>

record SubscriptionData =
  sd_id :: string
  sd_status :: "string option"
  sd_current_period_start :: "string option"
  sd_current_period_end :: "string option"
  sd_cancel_at_period_end :: "bool option"
  sd_metadata :: "metadata option"

definition handleSubscriptionUpdated ::
  "string \<Rightarrow> SubscriptionData \<Rightarrow> Subscription list \<Rightarrow> Subscription list \<times> string option" where
  "handleSubscriptionUpdated now subscriptionData subs =
     (case updateSubscriptionFromWebhook (sd_id subscriptionData)
             \<lparr>upd_status = sd_status subscriptionData,
              upd_currentPeriodStart = sd_current_period_start subscriptionData,
              upd_currentPeriodEnd = sd_current_period_end subscriptionData,
              upd_cancelAtPeriodEnd = sd_cancel_at_period_end subscriptionData,
              upd_canceledAt = None,
              upd_endedAt = None,
              upd_metadata = sd_metadata subscriptionData\<rparr> now subs of
        Inl message \<Rightarrow> (subs, Some message)
      | Inr (subs', _) \<Rightarrow> (subs', None))"


section \<open>Customer, invoice and checkout mutators (customers.ts, webhooks.ts, checkout.ts)\<close>

record PolarCustomer =
  pc_id :: string
  pc_email :: string
  pc_email_verified :: bool
  pc_metadata :: "metadata option"
  pc_created_at :: string
  pc_modified_at :: "string option"



record CreateInvoiceArgs =
  ci_customerId :: nat
  ci_subscriptionId :: "nat option"
  ci_polarInvoiceId :: string
  ci_invoiceNumber :: "string option"
  ci_amountDue :: int
  ci_currency :: string
  ci_status :: string
  ci_dueDate :: "string option"
  ci_periodStart :: "string option"
  ci_periodEnd :: "string option"
  ci_metadata :: "metadata option"

definition createInvoice ::
  "CreateInvoiceArgs \<Rightarrow> string \<Rightarrow> Customer list \<Rightarrow> Invoice list \<Rightarrow> Invoice list \<times> nat option" where
  "createInvoice args now customers invoices =
     (case find (\<lambda>c. cus_id c = ci_customerId args) customers of
        None \<Rightarrow> (invoices, None)
      | Some customer \<Rightarrow>
          (case find (\<lambda>i. inv_polarInvoiceId i = ci_polarInvoiceId args) invoices of
             Some existing \<Rightarrow>
               (map (\<lambda>doc. if inv_id doc = inv_id existing
                           then doc\<lparr>inv_status := ci_status args,
                                    inv_amountDueCents := ci_amountDue args\<rparr>
                           else doc) invoices,
                Some (inv_id existing))
           | None \<Rightarrow>
               (let newId = freshId (map inv_id invoices)
                in (invoices @
                      [\<lparr>inv_id = newId,
                        inv_userId = cus_userId customer,
                        inv_customerId = ci_customerId args,
                        inv_subscriptionId = ci_subscriptionId args,
                        inv_polarInvoiceId = ci_polarInvoiceId args,
                        inv_invoiceNumber = ci_invoiceNumber args,
                        inv_amountDueCents = ci_amountDue args,
                        inv_currency = ci_currency args,
                        inv_status = ci_status args,
                        inv_dueDate = ci_dueDate args,
                        inv_periodStart = ci_periodStart args,
                        inv_periodEnd = ci_periodEnd args,
                        inv_metadata = ci_metadata args,
                        inv_createdAt = now,
                        inv_paidAt = None\<rparr>],
                    Some newId))))"


section \<open>Webhook dispatcher (webhooks.ts) and event store\<close>

text \<open>
  One reading of the clock: \<open>Date.now()\<close> and \<open>new Date().toISOString()\<close>. A request is
  handled at one reading.
\<close>

record Clock =
  nowMs :: nat
  nowIso :: string

text \<open>\<open>String(n)\<close> for a non-negative integer: its decimal digits.\<close>

fun decimal :: "nat \<Rightarrow> string" where
  "decimal n =
     (if n < 10 then [''0123456789'' ! n]
      else decimal (n div 10) @ [''0123456789'' ! (n mod 10)])"

declare decimal.simps [simp del]

text \<open>
  A request: its headers under their lower-case names (\<open>headers.get\<close> ignores case and
  returns \<open>null\<close> for an absent header) and its body. A response: status and body text.
\<close>

record Request =
  req_headers :: "(string \<times> string) list"
  req_body :: string

record Response =
  res_status :: nat
  res_body :: "string option"

text \<open>
  The parsed notification \<open>{id, type, data}\<close>; \<open>id\<close> and \<open>type\<close> are strings when present.
\<close>

record 'a PolarPayload =
  p_id :: "string option"
  p_type :: "string option"
  p_data :: 'a

record 'a WebhookEvent =
  we_id :: nat
  we_eventId :: string
  we_eventType :: string
  we_source :: string
  we_payload :: "'a PolarPayload"
  we_receivedAt :: string
  we_attempts :: nat
  we_processedAt :: "string option"
  we_processingResult :: "string option"
  we_error :: "string option"
  we_lastAttemptAt :: "string option"

text \<open>
  What the dispatcher reads and writes: the \<open>webhookEvents\<close> table and, through the
  handlers it routes to, the billing tables \<open>domain\<close>.
\<close>

record ('a, 'd) Database =
  webhookEvents :: "'a WebhookEvent list"
  domain :: 'd

definition getWebhookEventById :: "'a WebhookEvent list \<Rightarrow> string \<Rightarrow> 'a WebhookEvent option" where
  "getWebhookEventById events eventId = find (\<lambda>e. we_eventId e = eventId) events"

definition storeWebhookEvent ::
  "string \<Rightarrow> string \<Rightarrow> string \<Rightarrow> 'a PolarPayload \<Rightarrow> string \<Rightarrow> 'a WebhookEvent list
     \<Rightarrow> 'a WebhookEvent list" where
  "storeWebhookEvent eventId eventType source payload receivedAt events =
     events @
       [\<lparr>we_id = freshId (map we_id events),
         we_eventId = eventId,
         we_eventType = eventType,
         we_source = source,
         we_payload = payload,
         we_receivedAt = receivedAt,
         we_attempts = 1,
         we_processedAt = None,
         we_processingResult = None,
         we_error = None,
         we_lastAttemptAt = None\<rparr>]"

definition markWebhookEventProcessed ::
  "string \<Rightarrow> string \<Rightarrow> string option \<Rightarrow> string \<Rightarrow> 'a WebhookEvent list
     \<Rightarrow> 'a WebhookEvent list" where
  "markWebhookEventProcessed eventId processingResult error now events =
     (case find (\<lambda>e. we_eventId e = eventId) events of
        None \<Rightarrow> events
      | Some event \<Rightarrow>
          map (\<lambda>doc. if we_id doc = we_id event
                      then doc\<lparr>we_processedAt := Some now,
                               we_processingResult := Some processingResult,
                               we_error := error,
                               we_lastAttemptAt := Some now\<rparr>
                      else doc) events)"

text \<open>
  \<open>verifyWebhookSignature\<close> (lib/polar.ts). \<open>hmacSha256Hex secret payload\<close> is the hex
  digest \<open>crypto.createHmac("sha256", secret).update(payload).digest("hex")\<close>, \<open>None\<close>
  when the crypto call throws. \<open>timingSafeEqual\<close> throws on buffers of different
  lengths; the \<open>catch\<close> turns every throw into \<open>false\<close>.
\<close>

definition verifyWebhookSignature ::
  "(string \<Rightarrow> string \<Rightarrow> string option) \<Rightarrow> string \<Rightarrow> string \<Rightarrow> string \<Rightarrow> bool" where
  "verifyWebhookSignature hmacSha256Hex payload signature secret =
     (case hmacSha256Hex secret payload of
        None \<Rightarrow> False
      | Some expectedSignature \<Rightarrow>
          if length signature \<noteq> length expectedSignature then False
          else signature = expectedSignature)"

text \<open>
  \<open>request.headers.get("x-webhook-signature") || request.headers.get("x-polar-signature") || ""\<close>
\<close>

definition signatureHeader :: "Request \<Rightarrow> string" where
  "signatureHeader request =
     (if truthy (map_of (req_headers request) ''x-webhook-signature'')
      then the (map_of (req_headers request) ''x-webhook-signature'')
      else if truthy (map_of (req_headers request) ''x-polar-signature'')
      then the (map_of (req_headers request) ''x-polar-signature'')
      else '''')"

text \<open>
  \<open>payload.id || `${payload.type}_${Date.now()}`\<close>; a template renders an absent
  \<open>type\<close> as \<open>undefined\<close>.
\<close>

definition eventIdOf :: "Clock \<Rightarrow> 'a PolarPayload \<Rightarrow> string" where
  "eventIdOf clock payload =
     (if truthy (p_id payload) then the (p_id payload)
      else (case p_type payload of None \<Rightarrow> ''undefined'' | Some t \<Rightarrow> t)
           @ ''_'' @ decimal (nowMs clock))"

text \<open>
  \<open>handlePolarWebhook\<close> of webhooks.ts. Its parameters besides the request and the
  database:
  \<^item> \<open>hmacSha256Hex\<close>, the digest of the crypto library;
  \<^item> \<open>parse\<close>, \<open>JSON.parse\<close> on the raw body: \<open>None\<close> when it throws or yields a value
    whose properties cannot be read;
  \<^item> \<open>route\<close>, the \<open>switch (eventType)\<close> over the event handlers (an unknown type is
    logged and changes nothing): it maps the billing tables to the tables the handlers
    leave, with the message of the error they let escape, if any;
  \<^item> \<open>secret\<close>, the environment variable \<open>POLAR_WEBHOOK_SECRET\<close>.
  \<open>storeWebhookEvent\<close> validates \<open>eventType\<close> as a string, so a notification without a type
  throws there and is answered by the outer \<open>catch\<close>.
\<close>

definition handlePolarWebhook ::
  "(string \<Rightarrow> string \<Rightarrow> string option) \<Rightarrow> (string \<Rightarrow> 'a PolarPayload option)
     \<Rightarrow> (Clock \<Rightarrow> string \<Rightarrow> 'a PolarPayload \<Rightarrow> 'd \<Rightarrow> 'd \<times> string option)
     \<Rightarrow> string option \<Rightarrow> Clock \<Rightarrow> Request \<Rightarrow> ('a, 'd) Database
     \<Rightarrow> Response \<times> ('a, 'd) Database" where
  "handlePolarWebhook hmacSha256Hex parse route secret clock request db =
     (let rawBody = req_body request;
          signature = signatureHeader request
      in if signature = [] then
           (\<lparr>res_status = 401, res_body = Some ''Missing signature''\<rparr>, db)
         else if \<not> truthy secret then
           (\<lparr>res_status = 500, res_body = Some ''Webhook secret not configured''\<rparr>, db)
         else if \<not> verifyWebhookSignature hmacSha256Hex rawBody signature (the secret) then
           (\<lparr>res_status = 401, res_body = Some ''Invalid signature''\<rparr>, db)
         else
           (case parse rawBody of
              None \<Rightarrow> (\<lparr>res_status = 500, res_body = Some ''Internal error''\<rparr>, db)
            | Some payload \<Rightarrow>
                (let eventId = eventIdOf clock payload
                 in case getWebhookEventById (webhookEvents db) eventId of
                      Some existingEvent \<Rightarrow>
                        (\<lparr>res_status = 200, res_body = Some ''OK''\<rparr>, db)
                    | None \<Rightarrow>
                        (case p_type payload of
                           None \<Rightarrow>
                             (\<lparr>res_status = 500, res_body = Some ''Internal error''\<rparr>, db)
                         | Some eventType \<Rightarrow>
                             (let stored =
                                    storeWebhookEvent eventId eventType ''polar'' payload
                                      (nowIso clock) (webhookEvents db)
                              in case route clock eventType payload (domain db) of
                                   (domain', None) \<Rightarrow>
                                     (\<lparr>res_status = 200, res_body = Some ''OK''\<rparr>,
                                      \<lparr>webhookEvents =
                                         markWebhookEventProcessed eventId ''success'' None
                                           (nowIso clock) stored,
                                       domain = domain'\<rparr>)
                                 | (domain', Some message) \<Rightarrow>
                                     (\<lparr>res_status = 500, res_body = Some ''Processing error''\<rparr>,
                                      \<lparr>webhookEvents =
                                         markWebhookEventProcessed eventId ''error''
                                           (Some message) (nowIso clock) stored,
                                       domain = domain'\<rparr>))))))"

section \<open>Webhook handler routed by http.ts (polarWebhook.ts)\<close>

text \<open>
  http.ts routes \<open>POST /polar/webhook\<close> to the \<open>handlePolarWebhook\<close> it imports from
  polarWebhook.ts. That handler reads the header \<open>webhook-signature\<close>, checks that the
  secret is configured, parses the body and logs the event type; it never touches
  \<open>ctx\<close>, so it takes and returns no database. \<open>parses\<close> tells whether the \<open>try\<close> block
  (\<open>JSON.parse\<close> and the read of \<open>event.type\<close>) completes.
\<close>

definition polarWebhook_handlePolarWebhook ::
  "(string \<Rightarrow> bool) \<Rightarrow> string option \<Rightarrow> Request \<Rightarrow> Response" where
  "polarWebhook_handlePolarWebhook parses secret request =
     (if \<not> truthy (map_of (req_headers request) ''webhook-signature'') then
        \<lparr>res_status = 400, res_body = Some ''Missing signature''\<rparr>
      else if \<not> truthy secret then
        \<lparr>res_status = 500, res_body = Some ''Webhook secret not configured''\<rparr>
      else if parses (req_body request) then
        \<lparr>res_status = 200, res_body = None\<rparr>
      else
        \<lparr>res_status = 400, res_body = Some ''Webhook processing failed''\<rparr>)"

section \<open>Reconciliation jobs (sync.ts)\<close>

text \<open>
  The payment processor's client \<open>polarApi\<close>, as the operations the jobs call. A call
  either returns or throws; \<open>Inl\<close> carries the message of the thrown error. Every call
  a job makes is appended to the log \<open>w_apiCalls\<close>, so that "no call was made" can be
  stated.
\<close>

record PolarSubscription =
  ps_id :: string
  ps_status :: string
  ps_product_id :: string
  ps_customer_id :: string
  ps_current_period_start :: string
  ps_current_period_end :: "string option"
  ps_cancel_at_period_end :: bool
  ps_ended_at :: "string option"
  ps_metadata :: "metadata option"

record PolarOrder =
  po_id :: string

record PolarApi =
  subscriptions_list :: "string \<Rightarrow> string + PolarSubscription list"
  subscriptions_get :: "string \<Rightarrow> string + PolarSubscription"
  customers_get :: "string \<Rightarrow> string + PolarCustomer"
  orders_get :: "string \<Rightarrow> string + PolarOrder option"

datatype ApiCall =
  SubscriptionsList string | SubscriptionsGet string | CustomersGet string | OrdersGet string

text \<open>The rows \<open>recordSyncStatus\<close> and \<open>logDiscrepancies\<close> insert, and a discrepancy.\<close>

record SyncStatusRow =
  bs_key :: string
  bs_status :: string
  bs_synced :: nat
  bs_failed :: nat
  bs_duration :: int
  bs_errors :: "(string \<times> string) list"
  bs_completedAt :: string
  bs_updatedAt :: string

record Discrepancy =
  d_type :: string
  d_localId :: nat
  d_polarId :: string
  d_issue :: string
  d_localData :: "(string \<times> json) list option"
  d_polarData :: "(string \<times> json) list option"

record AuditLog =
  al_action :: string
  al_resourceType :: string
  al_count :: nat
  al_discrepancies :: "Discrepancy list"
  al_createdAt :: string

text \<open>
  Everything a job can read or change: the module's circuit breaker, the tables, and
  the log of processor calls.
\<close>

record World =
  w_breaker :: CircuitBreakerState
  w_customers :: "Customer list"
  w_subscriptions :: "Subscription list"
  w_invoices :: "Invoice list"
  w_billingSettings :: "SyncStatusRow list"
  w_auditLogs :: "AuditLog list"
  w_apiCalls :: "ApiCall list"

definition startsWith :: "string \<Rightarrow> string \<Rightarrow> bool" where
  "startsWith s prefix = (take (length prefix) s = prefix)"

definition statusName :: "SubscriptionStatus \<Rightarrow> string" where
  "statusName s =
     (case s of
        INCOMPLETE \<Rightarrow> ''incomplete''
      | INCOMPLETE_EXPIRED \<Rightarrow> ''incomplete_expired''
      | TRIALING \<Rightarrow> ''trialing''
      | ACTIVE \<Rightarrow> ''active''
      | PAST_DUE \<Rightarrow> ''past_due''
      | CANCELED \<Rightarrow> ''canceled''
      | UNPAID \<Rightarrow> ''unpaid''
      | REVOKED \<Rightarrow> ''revoked'')"

text \<open>
  \<open>syncSubscription\<close>: upsert of one processor subscription, keyed on the external id.
  The argument's \<open>canceled_at\<close> is the processor's \<open>ended_at\<close>, as the caller passes it.
  A status that finds an inherited member makes the write throw.
\<close>

definition syncSubscription ::
  "nat \<Rightarrow> PolarSubscription \<Rightarrow> string \<Rightarrow> Customer list \<Rightarrow> Subscription list
     \<Rightarrow> string + Subscription list" where
  "syncSubscription customerId polarSubscription now customers subs =
     (let existing = getSubscriptionByPolarId subs (ps_id polarSubscription);
          status = mapPolarStatus (ps_status polarSubscription);
          customer = find (\<lambda>c. cus_id c = customerId) customers
      in case (existing, customer, status) of
           (Some found, _, Own st) \<Rightarrow>
             Inr (patchSubscription (sub_id found)
                    (\<lambda>doc. doc\<lparr>sub_status := st,
                             sub_currentPeriodStart :=
                               Some (ps_current_period_start polarSubscription),
                             sub_currentPeriodEnd := ps_current_period_end polarSubscription,
                             sub_cancelAtPeriodEnd :=
                               Some (ps_cancel_at_period_end polarSubscription),
                             sub_canceledAt := ps_ended_at polarSubscription,
                             sub_updatedAt := now,
                             sub_lastSyncedAt := Some now\<rparr>) subs)
         | (Some found, _, _) \<Rightarrow>
             Inl (ps_status polarSubscription @ '' is not a supported Convex type'')
         | (None, None, _) \<Rightarrow> Inr subs
         | (None, Some c, Own st) \<Rightarrow>
             Inr (subs @
                    [\<lparr>sub_id = freshId (map sub_id subs),
                      sub_customerId = customerId,
                      sub_userId = cus_userId c,
                      sub_orgId = cus_orgId c,
                      sub_polarSubscriptionId = ps_id polarSubscription,
                      sub_polarProductId = ps_product_id polarSubscription,
                      sub_status = st,
                      sub_currentPeriodStart = Some (ps_current_period_start polarSubscription),
                      sub_currentPeriodEnd = ps_current_period_end polarSubscription,
                      sub_cancelAtPeriodEnd = Some (ps_cancel_at_period_end polarSubscription),
                      sub_canceledAt = ps_ended_at polarSubscription,
                      sub_endedAt = None,
                      sub_trialStart = None,
                      sub_trialEnd = None,
                      sub_metadata = ps_metadata polarSubscription,
                      sub_createdAt = now,
                      sub_updatedAt = now,
                      sub_lastSyncedAt = Some now\<rparr>])
         | (None, Some c, _) \<Rightarrow>
             Inl (ps_status polarSubscription @ '' is not a supported Convex type''))"

text \<open>
  The inner loop of \<open>syncAllSubscriptions\<close> over one customer's processor subscriptions:
  it counts each upsert and stops at the first one that throws, keeping the upserts
  already made.
\<close>

fun syncItems ::
  "nat \<Rightarrow> string \<Rightarrow> Customer list \<Rightarrow> PolarSubscription list \<Rightarrow> nat \<times> Subscription list
     \<Rightarrow> string option \<times> nat \<times> Subscription list" where
  "syncItems customerId now customers [] (synced, subs) = (None, synced, subs)"
| "syncItems customerId now customers (polarSub # rest) (synced, subs) =
     (case syncSubscription customerId polarSub now customers subs of
        Inl message \<Rightarrow> (Some message, synced, subs)
      | Inr subs' \<Rightarrow> syncItems customerId now customers rest (synced + 1, subs'))"

text \<open>The running state of the outer loop: the counters, the error list and the world.\<close>

record SyncProgress =
  sp_synced :: nat
  sp_failed :: nat
  sp_errors :: "(string \<times> string) list"
  sp_world :: World

definition syncCustomer :: "PolarApi \<Rightarrow> string \<Rightarrow> SyncProgress \<Rightarrow> Customer \<Rightarrow> SyncProgress" where
  "syncCustomer api now progress customer =
     (if startsWith (cus_polarCustomerId customer) ''manual_'' then progress
      else
        (let world = sp_world progress;
             called = world\<lparr>w_apiCalls :=
                        w_apiCalls world @ [SubscriptionsList (cus_polarCustomerId customer)]\<rparr>
         in case subscriptions_list api (cus_polarCustomerId customer) of
              Inl message \<Rightarrow>
                progress\<lparr>sp_failed := sp_failed progress + 1,
                         sp_errors := sp_errors progress @ [(decimal (cus_id customer), message)],
                         sp_world := called\<rparr>
            | Inr items \<Rightarrow>
                (case syncItems (cus_id customer) now (w_customers world) items
                        (sp_synced progress, w_subscriptions world) of
                   (None, synced, subs) \<Rightarrow>
                     progress\<lparr>sp_synced := synced,
                              sp_world := called\<lparr>w_subscriptions := subs\<rparr>\<rparr>
                 | (Some message, synced, subs) \<Rightarrow>
                     progress\<lparr>sp_synced := synced,
                              sp_failed := sp_failed progress + 1,
                              sp_errors :=
                                sp_errors progress @ [(decimal (cus_id customer), message)],
                              sp_world := called\<lparr>w_subscriptions := subs\<rparr>\<rparr>)))"

definition recordSyncStatus ::
  "string \<Rightarrow> string \<Rightarrow> nat \<Rightarrow> nat \<Rightarrow> int \<Rightarrow> (string \<times> string) list \<Rightarrow> string
     \<Rightarrow> SyncStatusRow list \<Rightarrow> SyncStatusRow list" where
  "recordSyncStatus type status synced failed duration errors now rows =
     rows @
       [\<lparr>bs_key = ''lastSync_'' @ type,
         bs_status = status,
         bs_synced = synced,
         bs_failed = failed,
         bs_duration = duration,
         bs_errors = errors,
         bs_completedAt = now,
         bs_updatedAt = now\<rparr>]"

datatype SubscriptionSyncResult =
    SubscriptionSyncSkipped string "nat option"
  | SubscriptionSyncCompleted nat nat int "(string \<times> string) list"

datatype InvoiceSyncResult =
    InvoiceSyncSkipped string
  | InvoiceSyncCompleted nat nat int

text \<open>The \<open>status\<close> field of a job's result object.\<close>

definition subscriptionSyncStatus :: "SubscriptionSyncResult \<Rightarrow> string" where
  "subscriptionSyncStatus r =
     (case r of
        SubscriptionSyncSkipped _ _ \<Rightarrow> ''skipped''
      | SubscriptionSyncCompleted _ _ _ _ \<Rightarrow> ''completed'')"

definition invoiceSyncStatus :: "InvoiceSyncResult \<Rightarrow> string" where
  "invoiceSyncStatus r =
     (case r of
        InvoiceSyncSkipped _ \<Rightarrow> ''skipped''
      | InvoiceSyncCompleted _ _ _ \<Rightarrow> ''completed'')"

text \<open>
  \<open>syncAllSubscriptions\<close>. A run reads the clock when it starts and when it ends; what it
  writes in between is stamped with the later reading. \<open>queryFault\<close> is the message of
  the error \<open>ctx.runQuery(getAllCustomers)\<close> throws when the query fails (\<open>None\<close> when it
  returns): the one way into the outer \<open>catch\<close>, which records the failure and
  rethrows. The result is \<open>Inl\<close> of the message when the action throws.
\<close>

definition syncAllSubscriptions ::
  "PolarApi \<Rightarrow> string option \<Rightarrow> Clock \<Rightarrow> Clock \<Rightarrow> nat option \<Rightarrow> World
     \<Rightarrow> (string + SubscriptionSyncResult) \<times> World" where
  "syncAllSubscriptions api queryFault started finished batchSizeArg world =
     (case checkCircuitBreaker (nowMs started) (w_breaker world) of
        (False, breaker) \<Rightarrow>
          (Inr (SubscriptionSyncSkipped ''Circuit breaker open'' (nextRetry breaker)),
           world\<lparr>w_breaker := breaker\<rparr>)
      | (True, breaker) \<Rightarrow>
          (let batchSize = (case batchSizeArg of None \<Rightarrow> 50 | Some n \<Rightarrow> if n = 0 then 50 else n);
               duration = int (nowMs finished) - int (nowMs started)
           in case queryFault of
                Some message \<Rightarrow>
                  (Inl message,
                   world\<lparr>w_breaker := recordFailure (nowMs finished) breaker,
                         w_billingSettings :=
                           recordSyncStatus ''subscriptions'' ''failed'' 0 0 duration
                             [(''system'', message)] (nowIso finished)
                             (w_billingSettings world)\<rparr>)
              | None \<Rightarrow>
                  (let customers = take batchSize (w_customers world);
                       progress =
                         foldl (syncCustomer api (nowIso finished))
                           \<lparr>sp_synced = 0, sp_failed = 0, sp_errors = [],
                            sp_world = world\<lparr>w_breaker := breaker\<rparr>\<rparr>
                           customers;
                       synced = sp_synced progress;
                       failed = sp_failed progress;
                       errors = sp_errors progress;
                       world' = sp_world progress
                   in (Inr (SubscriptionSyncCompleted synced failed duration (take 10 errors)),
                       world'\<lparr>w_breaker := recordSuccess (w_breaker world'),
                              w_billingSettings :=
                                recordSyncStatus ''subscriptions''
                                  (if failed = 0 then ''success'' else ''partial'')
                                  synced failed duration errors (nowIso finished)
                                  (w_billingSettings world')\<rparr>))))"

text \<open>
  \<open>syncPendingInvoices\<close>: every locally pending invoice whose order the processor
  returns is marked paid. \<open>queryFault\<close> is the failure of
  \<open>ctx.runQuery(getPendingInvoices)\<close>, as above.
\<close>

record InvoiceProgress =
  ip_updated :: nat
  ip_failed :: nat
  ip_world :: World

definition syncInvoice :: "PolarApi \<Rightarrow> string \<Rightarrow> InvoiceProgress \<Rightarrow> Invoice \<Rightarrow> InvoiceProgress" where
  "syncInvoice api now progress invoice =
     (if startsWith (inv_polarInvoiceId invoice) ''manual_'' then progress
      else
        (let world = ip_world progress;
             called = world\<lparr>w_apiCalls :=
                        w_apiCalls world @ [OrdersGet (inv_polarInvoiceId invoice)]\<rparr>
         in case orders_get api (inv_polarInvoiceId invoice) of
              Inl message \<Rightarrow>
                progress\<lparr>ip_failed := ip_failed progress + 1, ip_world := called\<rparr>
            | Inr None \<Rightarrow> progress\<lparr>ip_world := called\<rparr>
            | Inr (Some order) \<Rightarrow>
                progress\<lparr>ip_updated := ip_updated progress + 1,
                         ip_world :=
                           called\<lparr>w_invoices :=
                             map (\<lambda>doc. if inv_id doc = inv_id invoice
                                         then doc\<lparr>inv_status := ''paid'', inv_paidAt := Some now\<rparr>
                                         else doc) (w_invoices called)\<rparr>\<rparr>))"

definition syncPendingInvoices ::
  "PolarApi \<Rightarrow> string option \<Rightarrow> Clock \<Rightarrow> Clock \<Rightarrow> World
     \<Rightarrow> (string + InvoiceSyncResult) \<times> World" where
  "syncPendingInvoices api queryFault started finished world =
     (case checkCircuitBreaker (nowMs started) (w_breaker world) of
        (False, breaker) \<Rightarrow>
          (Inr (InvoiceSyncSkipped ''Circuit breaker open''), world\<lparr>w_breaker := breaker\<rparr>)
      | (True, breaker) \<Rightarrow>
          (case queryFault of
             Some message \<Rightarrow>
               (Inl message, world\<lparr>w_breaker := recordFailure (nowMs finished) breaker\<rparr>)
           | None \<Rightarrow>
               (let pendingInvoices = filter (\<lambda>i. inv_status i = ''pending'') (w_invoices world);
                    progress =
                      foldl (syncInvoice api (nowIso finished))
                        \<lparr>ip_updated = 0, ip_failed = 0,
                         ip_world = world\<lparr>w_breaker := breaker\<rparr>\<rparr>
                        pendingInvoices;
                    world' = ip_world progress
                in (Inr (InvoiceSyncCompleted (ip_updated progress) (ip_failed progress)
                           (int (nowMs finished) - int (nowMs started))),
                    world'\<lparr>w_breaker := recordSuccess (w_breaker world')\<rparr>))))"

section \<open>Reconcile/diff (sync.ts)\<close>

datatype CheckType = CheckSubscriptions | CheckCustomers | CheckInvoices

definition checkTypeName :: "CheckType \<Rightarrow> string" where
  "checkTypeName c =
     (case c of
        CheckSubscriptions \<Rightarrow> ''subscriptions''
      | CheckCustomers \<Rightarrow> ''customers''
      | CheckInvoices \<Rightarrow> ''invoices'')"

definition jsonOfBool :: "bool option \<Rightarrow> json" where
  "jsonOfBool b = (case b of None \<Rightarrow> JNull | Some v \<Rightarrow> JBool v)"

text \<open>
  The body of the loop over the local subscriptions: the discrepancies one subscription
  adds, given what \<open>polarApi.subscriptions.get\<close> did; \<open>statusMismatch\<close> and
  \<open>cancellationMismatch\<close> are the two entries it pushes. The comparison of the
  cancel-at-period-end flags is \<open>!==\<close> between the processor's boolean and the local
  optional boolean, so an absent local flag differs from both booleans.
\<close>

definition statusMismatch :: "Subscription \<Rightarrow> PolarSubscription \<Rightarrow> Discrepancy" where
  "statusMismatch sub polarSub =
     \<lparr>d_type = ''status_mismatch'',
      d_localId = sub_id sub,
      d_polarId = sub_polarSubscriptionId sub,
      d_issue = ''Status mismatch: local='' @ statusName (sub_status sub)
                 @ '', polar='' @ ps_status polarSub,
      d_localData = Some [(''status'', JStr (statusName (sub_status sub)))],
      d_polarData = Some [(''status'', JStr (ps_status polarSub))]\<rparr>"

definition cancellationMismatch :: "Subscription \<Rightarrow> PolarSubscription \<Rightarrow> Discrepancy" where
  "cancellationMismatch sub polarSub =
     \<lparr>d_type = ''cancellation_mismatch'',
      d_localId = sub_id sub,
      d_polarId = sub_polarSubscriptionId sub,
      d_issue = ''Cancel at period end mismatch'',
      d_localData = Some [(''cancelAtPeriodEnd'', jsonOfBool (sub_cancelAtPeriodEnd sub))],
      d_polarData = Some [(''cancel_at_period_end'', JBool (ps_cancel_at_period_end polarSub))]\<rparr>"

definition subscriptionDiscrepancies ::
  "Subscription \<Rightarrow> string + PolarSubscription \<Rightarrow> Discrepancy list" where
  "subscriptionDiscrepancies sub fetched =
     (case fetched of
        Inl message \<Rightarrow>
          [\<lparr>d_type = ''not_found_in_polar'',
            d_localId = sub_id sub,
            d_polarId = sub_polarSubscriptionId sub,
            d_issue = ''Subscription not found in Polar'',
            d_localData = None,
            d_polarData = None\<rparr>]
      | Inr polarSub \<Rightarrow>
          (if ps_status polarSub \<noteq> statusName (sub_status sub)
           then [statusMismatch sub polarSub] else [])
          @
          (if Some (ps_cancel_at_period_end polarSub) \<noteq> sub_cancelAtPeriodEnd sub
           then [cancellationMismatch sub polarSub] else []))"

definition customerDiscrepancies :: "Customer \<Rightarrow> string + PolarCustomer \<Rightarrow> Discrepancy list" where
  "customerDiscrepancies customer fetched =
     (case fetched of
        Inl message \<Rightarrow>
          [\<lparr>d_type = ''not_found_in_polar'',
            d_localId = cus_id customer,
            d_polarId = cus_polarCustomerId customer,
            d_issue = ''Customer not found in Polar'',
            d_localData = None,
            d_polarData = None\<rparr>]
      | Inr polarCustomer \<Rightarrow>
          (if pc_email polarCustomer \<noteq> cus_email customer then
             [\<lparr>d_type = ''email_mismatch'',
               d_localId = cus_id customer,
               d_polarId = cus_polarCustomerId customer,
               d_issue = ''Email mismatch'',
               d_localData = Some [(''email'', JStr (cus_email customer))],
               d_polarData = Some [(''email'', JStr (pc_email polarCustomer))]\<rparr>]
           else []))"

text \<open>
  The two loops, over the local subscriptions that are \<open>active\<close> and over the first
  hundred customers: each returns the discrepancies found and the processor calls made.
\<close>

definition reconcileSubscriptions ::
  "PolarApi \<Rightarrow> Subscription list \<Rightarrow> Discrepancy list \<times> ApiCall list" where
  "reconcileSubscriptions api localSubs =
     foldl (\<lambda>(discrepancies, calls) sub.
              if startsWith (sub_polarSubscriptionId sub) ''manual_'' then (discrepancies, calls)
              else (discrepancies
                      @ subscriptionDiscrepancies sub
                          (subscriptions_get api (sub_polarSubscriptionId sub)),
                    calls @ [SubscriptionsGet (sub_polarSubscriptionId sub)]))
       ([], []) localSubs"

definition reconcileCustomers ::
  "PolarApi \<Rightarrow> Customer list \<Rightarrow> Discrepancy list \<times> ApiCall list" where
  "reconcileCustomers api localCustomers =
     foldl (\<lambda>(discrepancies, calls) customer.
              if startsWith (cus_polarCustomerId customer) ''manual_'' then (discrepancies, calls)
              else (discrepancies
                      @ customerDiscrepancies customer
                          (customers_get api (cus_polarCustomerId customer)),
                    calls @ [CustomersGet (cus_polarCustomerId customer)]))
       ([], []) localCustomers"

definition logDiscrepancies ::
  "string \<Rightarrow> Discrepancy list \<Rightarrow> string \<Rightarrow> AuditLog list \<Rightarrow> AuditLog list" where
  "logDiscrepancies checkType discrepancies now logs =
     logs @
       [\<lparr>al_action = ''reconciliation.discrepancies'',
         al_resourceType = checkType,
         al_count = length discrepancies,
         al_discrepancies = discrepancies,
         al_createdAt = now\<rparr>]"

record ReconcileResult =
  rr_checkType :: CheckType
  rr_discrepanciesFound :: nat
  rr_discrepancies :: "Discrepancy list"

text \<open>
  \<open>reconcileBilling\<close>. It does not consult the circuit breaker, and its result object has
  no \<open>status\<close> field. The \<open>switch\<close> has no case for \<open>invoices\<close>.
\<close>

definition reconcileBilling ::
  "PolarApi \<Rightarrow> Clock \<Rightarrow> CheckType option \<Rightarrow> World \<Rightarrow> ReconcileResult \<times> World" where
  "reconcileBilling api clock checkTypeArg world =
     (let checkType = (case checkTypeArg of None \<Rightarrow> CheckSubscriptions | Some c \<Rightarrow> c);
          (discrepancies, calls) =
            (case checkType of
               CheckSubscriptions \<Rightarrow>
                 reconcileSubscriptions api
                   (filter (\<lambda>s. sub_status s = ACTIVE) (w_subscriptions world))
             | CheckCustomers \<Rightarrow>
                 reconcileCustomers api (take 100 (w_customers world))
             | CheckInvoices \<Rightarrow> ([], []))
      in (\<lparr>rr_checkType = checkType,
           rr_discrepanciesFound = length discrepancies,
           rr_discrepancies = take 20 discrepancies\<rparr>,
          world\<lparr>w_apiCalls := w_apiCalls world @ calls,
                w_auditLogs :=
                  (if discrepancies \<noteq> []
                   then logDiscrepancies (checkTypeName checkType) discrepancies (nowIso clock)
                          (w_auditLogs world)
                   else w_auditLogs world)\<rparr>))"

section \<open>Usage batch forwarder (usageTracking.ts)\<close>
















section \<open>Sample documents\<close>

text \<open>
  Concrete documents and notifications on which the theorems below are evaluated. The
  subscription carries metadata \<open>{b: 2}\<close>, the notification metadata \<open>{a: 1}\<close>.
\<close>

definition sampleSubscription :: Subscription where
  "sampleSubscription =
     \<lparr>sub_id = 1, sub_customerId = 7, sub_userId = None, sub_orgId = None,
      sub_polarSubscriptionId = ''sub_1'', sub_polarProductId = ''prod_1'',
      sub_status = ACTIVE,
      sub_currentPeriodStart = Some ''2024-01-01T00:00:00Z'', sub_currentPeriodEnd = None,
      sub_cancelAtPeriodEnd = Some False, sub_canceledAt = None, sub_endedAt = None,
      sub_trialStart = None, sub_trialEnd = None,
      sub_metadata = Some [''b'' \<mapsto> JNum 2],
      sub_createdAt = ''2024-01-01T00:00:00.000Z'', sub_updatedAt = ''2024-01-01T00:00:00.000Z'',
      sub_lastSyncedAt = None\<rparr>"

definition sampleNotification :: SubscriptionData where
  "sampleNotification =
     \<lparr>sd_id = ''sub_1'', sd_status = Some ''past_due'',
      sd_current_period_start = None, sd_current_period_end = Some ''2024-03-01T00:00:00Z'',
      sd_cancel_at_period_end = Some True,
      sd_metadata = Some [''a'' \<mapsto> JNum 1]\<rparr>"



text \<open>A customer with metadata \<open>{b: 2}\<close> and the processor's view of it with \<open>{a: 1}\<close>.\<close>

definition sampleCustomer :: Customer where
  "sampleCustomer =
     \<lparr>cus_id = 7, cus_userId = None, cus_orgId = None, cus_email = ''ada@example.com'',
      cus_polarCustomerId = ''cus_1'', cus_createdAt = ''2024-01-01T00:00:00.000Z'',
      cus_metadata = Some [''b'' \<mapsto> JNum 2], cus_lastSyncedAt = None\<rparr>"

definition samplePolarCustomer :: PolarCustomer where
  "samplePolarCustomer =
     \<lparr>pc_id = ''cus_1'', pc_email = ''ada@example.com'', pc_email_verified = True,
      pc_metadata = Some [''a'' \<mapsto> JNum 1], pc_created_at = ''2024-01-01T00:00:00Z'',
      pc_modified_at = None\<rparr>"

text \<open>
  A signed delivery of a \<open>subscription.updated\<close> notification with event id \<open>evt_1\<close>, the
  same request without any signature header, a digest function and a parser that
  accept the signed request, the \<open>subscription.updated\<close> and \<open>default\<close> cases of the
  dispatcher's \<open>switch\<close>, an empty event store, and two clock readings a minute apart.
\<close>

definition sampleHmac :: "string \<Rightarrow> string \<Rightarrow> string option" where
  "sampleHmac secret payload = Some (''digest-of-'' @ payload @ ''-under-'' @ secret)"

definition samplePayload :: "SubscriptionData PolarPayload" where
  "samplePayload =
     \<lparr>p_id = Some ''evt_1'', p_type = Some ''subscription.updated'', p_data = sampleNotification\<rparr>"

definition sampleParse :: "string \<Rightarrow> SubscriptionData PolarPayload option" where
  "sampleParse rawBody = (if rawBody = ''evt_1 subscription.updated sub_1'' then Some samplePayload else None)"


definition unsignedRequest :: Request where
  "unsignedRequest =
     \<lparr>req_headers = [(''content-type'', ''application/json'')],
      req_body = ''evt_1 subscription.updated sub_1''\<rparr>"

definition sampleRoute ::
  "Clock \<Rightarrow> string \<Rightarrow> SubscriptionData PolarPayload \<Rightarrow> Subscription list
     \<Rightarrow> Subscription list \<times> string option" where
  "sampleRoute clock eventType payload subs =
     (if eventType = ''subscription.updated''
      then handleSubscriptionUpdated (nowIso clock) (p_data payload) subs
      else (subs, None))"

definition sampleDatabase :: "(SubscriptionData, Subscription list) Database" where
  "sampleDatabase = \<lparr>webhookEvents = [], domain = [sampleSubscription]\<rparr>"

definition firstDelivery :: Clock where
  "firstDelivery = \<lparr>nowMs = 1706745600000, nowIso = ''2024-02-01T00:00:00.000Z''\<rparr>"


definition sampleParses :: "string \<Rightarrow> bool" where
  "sampleParses rawBody = (sampleParse rawBody \<noteq> None)"

text \<open>
  A processor that reports every subscription as \<open>past_due\<close> and returns every order; a
  pending invoice; a world whose breaker has tripped at instant 3000, with a clock
  reading inside the cooldown; and a world with twenty-one active subscriptions
  \<open>sub_1\<close> \<dots> \<open>sub_21\<close>, the last of them \<open>lastNumbered\<close>.
\<close>

definition samplePolarSubscription :: PolarSubscription where
  "samplePolarSubscription =
     \<lparr>ps_id = ''sub_1'', ps_status = ''past_due'', ps_product_id = ''prod_1'',
      ps_customer_id = ''cus_1'', ps_current_period_start = ''2024-02-01T00:00:00Z'',
      ps_current_period_end = None, ps_cancel_at_period_end = False, ps_ended_at = None,
      ps_metadata = None\<rparr>"

definition sampleApi :: PolarApi where
  "sampleApi =
     \<lparr>subscriptions_list = (\<lambda>customerId. Inr [samplePolarSubscription]),
      subscriptions_get = (\<lambda>subscriptionId. Inr (samplePolarSubscription\<lparr>ps_id := subscriptionId\<rparr>)),
      customers_get = (\<lambda>customerId. Inr samplePolarCustomer),
      orders_get = (\<lambda>orderId. Inr (Some \<lparr>po_id = orderId\<rparr>))\<rparr>"

definition sampleInvoice :: Invoice where
  "sampleInvoice =
     \<lparr>inv_id = 3, inv_userId = None, inv_customerId = 7, inv_subscriptionId = Some 1,
      inv_polarInvoiceId = ''inv_1'', inv_invoiceNumber = None, inv_amountDueCents = 1900,
      inv_currency = ''usd'', inv_status = ''pending'', inv_dueDate = None,
      inv_periodStart = None, inv_periodEnd = None, inv_metadata = None,
      inv_createdAt = ''2024-01-01T00:00:00.000Z'', inv_paidAt = None\<rparr>"

definition trippedWorld :: World where
  "trippedWorld =
     \<lparr>w_breaker = recordFailure 3000 (recordFailure 2000 (recordFailure 1000 circuitBreaker)),
      w_customers = [sampleCustomer],
      w_subscriptions = [sampleSubscription],
      w_invoices = [sampleInvoice],
      w_billingSettings = [],
      w_auditLogs = [],
      w_apiCalls = []\<rparr>"

definition duringCooldown :: Clock where
  "duringCooldown = \<lparr>nowMs = 4000, nowIso = ''1970-01-01T00:00:04.000Z''\<rparr>"









section \<open>Properties of the circuit breaker\<close>





section \<open>Properties of the status mapping\<close>

lemma mapPolarStatus_known:
  "mapPolarStatus ''incomplete'' = Own INCOMPLETE"
  "mapPolarStatus ''incomplete_expired'' = Own INCOMPLETE_EXPIRED"
  "mapPolarStatus ''trialing'' = Own TRIALING"
  "mapPolarStatus ''active'' = Own ACTIVE"
  "mapPolarStatus ''past_due'' = Own PAST_DUE"
  "mapPolarStatus ''canceled'' = Own CANCELED"
  "mapPolarStatus ''unpaid'' = Own UNPAID"
  by (simp_all add: mapPolarStatus_def jsGet_def statusMap_def)

lemma mapPolarStatus_unknown:
  assumes "s \<notin> fst ` set statusMap" and "s \<notin> set objectPrototypeKeys"
  shows "mapPolarStatus s = Own REVOKED"
proof -
  have "map_of statusMap s = None"
    using assms(1) by (simp only: map_of_eq_None_iff not_False_eq_True)
  with assms(2) show ?thesis
    by (simp add: mapPolarStatus_def jsGet_def)
qed

text \<open>
  Claim C5. The status mapping is meant to return one of the eight subscription states
  for every string, \<open>revoked\<close> for every string other than the seven known statuses. At
  the string \<open>constructor\<close> the lookup \<open>statusMap[polarStatus]\<close> finds the member every
  object literal inherits from \<open>Object.prototype\<close>, which is truthy, so the function
  returns that member and not \<open>revoked\<close>.
\<close>

theorem mapPolarStatus_constructor:
  "mapPolarStatus ''constructor'' = Inherited ''constructor''
 \<and> mapPolarStatus ''constructor'' \<noteq> Own REVOKED"
  by (simp add: mapPolarStatus_def jsGet_def statusMap_def objectPrototypeKeys_def)

section \<open>Properties of the subscription mutator\<close>


















section \<open>Metadata on upsert\<close>





section \<open>Properties of the webhook dispatcher\<close>






lemma first_delivery_routes_once:
  assumes "signatureHeader request \<noteq> []"
    and "secret = Some key" and "key \<noteq> []"
    and "verifyWebhookSignature hmac (req_body request) (signatureHeader request) key"
    and "parse (req_body request) = Some payload"
    and "p_id payload = Some eventId" and "eventId \<noteq> []"
    and "p_type payload = Some eventType"
    and "getWebhookEventById (webhookEvents db) eventId = None"
  shows "domain (snd (handlePolarWebhook hmac parse route secret clock request db))
           = fst (route clock eventType payload (domain db))"
    and "snd (route clock eventType payload (domain db)) = None \<Longrightarrow>
          res_status (fst (handlePolarWebhook hmac parse route secret clock request db)) = 200"
  using assms
  by (auto simp: handlePolarWebhook_def Let_def truthy_def eventIdOf_def
        split: option.splits prod.splits)




text \<open>
  Claim C2, as the code has it. A request with no signature header is rejected and
  nothing is written: the dispatcher of webhooks.ts answers 401 and returns the
  database as it was; the handler of polarWebhook.ts, which has no access to the
  database, answers 400.
\<close>

theorem missing_signature_rejected:
  "(map_of (req_headers request) ''x-webhook-signature'' = None
      \<and> map_of (req_headers request) ''x-polar-signature'' = None
    \<longrightarrow> handlePolarWebhook hmac parse route secret clock request db
          = (\<lparr>res_status = 401, res_body = Some ''Missing signature''\<rparr>, db))
 \<and> (map_of (req_headers request) ''webhook-signature'' = None
    \<longrightarrow> polarWebhook_handlePolarWebhook parses secret request
          = \<lparr>res_status = 400, res_body = Some ''Missing signature''\<rparr>)"
  by (simp add: handlePolarWebhook_def signatureHeader_def truthy_def
        polarWebhook_handlePolarWebhook_def)

theorem missing_signature_rejected_witness:
  "map_of (req_headers unsignedRequest) ''x-webhook-signature'' = None
 \<and> map_of (req_headers unsignedRequest) ''x-polar-signature'' = None
 \<and> map_of (req_headers unsignedRequest) ''webhook-signature'' = None
 \<and> handlePolarWebhook sampleHmac sampleParse sampleRoute (Some ''whsec'') firstDelivery
       unsignedRequest sampleDatabase
     = (\<lparr>res_status = 401, res_body = Some ''Missing signature''\<rparr>, sampleDatabase)
 \<and> polarWebhook_handlePolarWebhook sampleParses (Some ''whsec'') unsignedRequest
     = \<lparr>res_status = 400, res_body = Some ''Missing signature''\<rparr>"
proof -
  have absent:
    "map_of (req_headers unsignedRequest) ''x-webhook-signature'' = None"
    "map_of (req_headers unsignedRequest) ''x-polar-signature'' = None"
    "map_of (req_headers unsignedRequest) ''webhook-signature'' = None"
    by (simp_all add: unsignedRequest_def)
  with missing_signature_rejected
         [of unsignedRequest sampleHmac sampleParse sampleRoute "Some ''whsec''" firstDelivery
             sampleDatabase sampleParses]
  show ?thesis by blast
qed

text \<open>
  Claim C2, as stated. The handler http.ts routes at \<open>/polar/webhook\<close> answers a request
  without signature header with status 400, not 401.
\<close>

theorem routed_handler_answers_400:
  "res_status (polarWebhook_handlePolarWebhook sampleParses (Some ''whsec'') unsignedRequest) = 400
 \<and> res_status (polarWebhook_handlePolarWebhook sampleParses (Some ''whsec'') unsignedRequest) \<noteq> 401"
  by (simp add: polarWebhook_handlePolarWebhook_def unsignedRequest_def truthy_def)

section \<open>Properties of the reconciliation jobs\<close>

text \<open>
  Claim C4, as the code has it, for the two sync jobs. Whenever the circuit breaker
  denies the attempt, \<open>syncAllSubscriptions\<close> and \<open>syncPendingInvoices\<close> each return a
  result with status \<open>skipped\<close> and make no call to the processor; and a result with
  status \<open>skipped\<close> is returned only when the breaker denied the attempt.
\<close>

theorem sync_jobs_gated:
  "(\<not> fst (checkCircuitBreaker (nowMs started) (w_breaker world)) \<longrightarrow>
      (\<exists>reason retryAt.
         fst (syncAllSubscriptions api queryFault started finished batchSize world)
           = Inr (SubscriptionSyncSkipped reason retryAt))
    \<and> w_apiCalls (snd (syncAllSubscriptions api queryFault started finished batchSize world))
        = w_apiCalls world)
 \<and> (fst (syncAllSubscriptions api queryFault started finished batchSize world) = Inr subscriptionResult
      \<and> subscriptionSyncStatus subscriptionResult = ''skipped''
    \<longrightarrow> \<not> fst (checkCircuitBreaker (nowMs started) (w_breaker world)))
 \<and> (\<not> fst (checkCircuitBreaker (nowMs started) (w_breaker world)) \<longrightarrow>
      (\<exists>reason.
         fst (syncPendingInvoices api queryFault started finished world)
           = Inr (InvoiceSyncSkipped reason))
    \<and> w_apiCalls (snd (syncPendingInvoices api queryFault started finished world))
        = w_apiCalls world)
 \<and> (fst (syncPendingInvoices api queryFault started finished world) = Inr invoiceResult
      \<and> invoiceSyncStatus invoiceResult = ''skipped''
    \<longrightarrow> \<not> fst (checkCircuitBreaker (nowMs started) (w_breaker world)))"
proof (cases "checkCircuitBreaker (nowMs started) (w_breaker world)")
  case (Pair allowed breaker)
  show ?thesis
  proof (cases allowed)
    case True
    with Pair show ?thesis
      by (auto simp: syncAllSubscriptions_def syncPendingInvoices_def Let_def
            subscriptionSyncStatus_def invoiceSyncStatus_def split: option.splits)
  next
    case False
    with Pair show ?thesis
      by (simp add: syncAllSubscriptions_def syncPendingInvoices_def)
  qed
qed

theorem sync_jobs_gated_witness:
  "\<not> fst (checkCircuitBreaker (nowMs duringCooldown) (w_breaker trippedWorld))
 \<and> fst (syncAllSubscriptions sampleApi None duringCooldown duringCooldown (Some 100) trippedWorld)
     = Inr (SubscriptionSyncSkipped ''Circuit breaker open'' (Some 303000))
 \<and> subscriptionSyncStatus (SubscriptionSyncSkipped ''Circuit breaker open'' (Some 303000)) = ''skipped''
 \<and> w_apiCalls (snd (syncAllSubscriptions sampleApi None duringCooldown duringCooldown (Some 100)
                       trippedWorld)) = []
 \<and> fst (syncPendingInvoices sampleApi None duringCooldown duringCooldown trippedWorld)
     = Inr (InvoiceSyncSkipped ''Circuit breaker open'')
 \<and> invoiceSyncStatus (InvoiceSyncSkipped ''Circuit breaker open'') = ''skipped''
 \<and> w_apiCalls (snd (syncPendingInvoices sampleApi None duringCooldown duringCooldown trippedWorld))
     = []"
proof -
  have denied: "\<not> fst (checkCircuitBreaker (nowMs duringCooldown) (w_breaker trippedWorld))"
    by (simp add: checkCircuitBreaker_def trippedWorld_def duringCooldown_def recordFailure_def
          circuitBreaker_def cooldownMs_def Let_def)
  have calls: "w_apiCalls trippedWorld = []"
    by (simp add: trippedWorld_def)
  have subs: "fst (syncAllSubscriptions sampleApi None duringCooldown duringCooldown (Some 100) trippedWorld)
     = Inr (SubscriptionSyncSkipped ''Circuit breaker open'' (Some 303000))"
    by (simp add: syncAllSubscriptions_def checkCircuitBreaker_def trippedWorld_def
          duringCooldown_def recordFailure_def circuitBreaker_def cooldownMs_def Let_def)
  have invs: "fst (syncPendingInvoices sampleApi None duringCooldown duringCooldown trippedWorld)
     = Inr (InvoiceSyncSkipped ''Circuit breaker open'')"
    by (simp add: syncPendingInvoices_def checkCircuitBreaker_def trippedWorld_def
          duringCooldown_def recordFailure_def circuitBreaker_def cooldownMs_def Let_def)
  from sync_jobs_gated
         [of duringCooldown trippedWorld sampleApi None duringCooldown "Some 100"
             "SubscriptionSyncSkipped ''Circuit breaker open'' (Some 303000)"
             "InvoiceSyncSkipped ''Circuit breaker open''"]
       denied calls subs invs
  show ?thesis
    by (simp add: subscriptionSyncStatus_def invoiceSyncStatus_def)
qed

text \<open>
  Claim C4, as stated for the reconcile/diff job too. With the breaker open and the
  cooldown running, \<open>reconcileBilling\<close> calls the processor and returns its usual result.
\<close>

theorem reconcile_calls_processor_while_breaker_denies:
  "\<not> fst (checkCircuitBreaker (nowMs duringCooldown) (w_breaker trippedWorld))
 \<and> w_apiCalls trippedWorld = []
 \<and> w_apiCalls (snd (reconcileBilling sampleApi duringCooldown (Some CheckSubscriptions) trippedWorld))
     = [SubscriptionsGet ''sub_1'']
 \<and> rr_discrepanciesFound
       (fst (reconcileBilling sampleApi duringCooldown (Some CheckSubscriptions) trippedWorld)) = 1"
  by (simp add: checkCircuitBreaker_def trippedWorld_def duringCooldown_def recordFailure_def
        circuitBreaker_def cooldownMs_def Let_def reconcileBilling_def reconcileSubscriptions_def
        sampleSubscription_def startsWith_def sampleApi_def samplePolarSubscription_def
        subscriptionDiscrepancies_def statusName_def)


section \<open>Properties of reconcile/diff\<close>











section \<open>Properties of the usage batch forwarder\<close>
































end
